theory Spec2Isabelle
  imports Main "HOL-Library.Sublist"
begin

section \<open>Python values and exceptions\<close>

text \<open>
  The pipeline of \<^verbatim>\<open>src/main.py\<close> talks to six external collaborators (video search,
  caption retrieval, audio download, speech model, language detection, translation).
  Every call can raise; an exception is a value \<open>Exn cls msg\<close> and every fallible
  computation returns \<open>exn + 'a\<close> with \<open>Inl\<close> for the raise.
  \<open>KeyboardInterrupt\<close> stands for the exceptions that derive from \<open>BaseException\<close> only,
  which \<^verbatim>\<open>except Exception\<close> does not catch.
\<close>

datatype exn_class =
    NoTranscriptFound | TranscriptsDisabled | VideoUnavailable | RequestException
  | AttributeError | IndexError | ValueError | RuntimeError | DownloadError
  | LangDetectException | TranslationError | HttpError | OSError | UnicodeEncodeError
  | KeyboardInterrupt

datatype exn = Exn exn_class string

fun isinstance_Exception :: "exn \<Rightarrow> bool" where
  "isinstance_Exception (Exn c m) = (c \<noteq> KeyboardInterrupt)"

definition bind :: "exn + 'a \<Rightarrow> ('a \<Rightarrow> exn + 'b) \<Rightarrow> exn + 'b" where
  "bind x f = (case x of Inl e \<Rightarrow> Inl e | Inr a \<Rightarrow> f a)"

section \<open>String operations of the Python library\<close>

text \<open>
  \<^verbatim>\<open>sep.join(xs)\<close>: the elements in order, \<open>sep\<close> between neighbours.
\<close>

fun join_py :: "string \<Rightarrow> string list \<Rightarrow> string" where
  "join_py sep [] = []"
| "join_py sep [x] = x"
| "join_py sep (x # y # ys) = x @ sep @ join_py sep (y # ys)"

text \<open>
  \<^verbatim>\<open>s.split(sep)\<close> scans from the left and cuts at every occurrence of \<open>sep\<close> that does
  not overlap the previous cut; \<open>cur\<close> is the piece collected since the last cut.
  Python raises \<open>ValueError\<close> for an empty separator.
\<close>

function split_from :: "string \<Rightarrow> string \<Rightarrow> string \<Rightarrow> string list" where
  "split_from sep cur [] = [cur]"
| "split_from sep cur (c # cs) =
     (if sep \<noteq> [] \<and> prefix sep (c # cs)
      then cur # split_from sep [] (drop (length sep) (c # cs))
      else split_from sep (cur @ [c]) cs)"
  by pat_completeness auto
termination
  by (relation "measure (\<lambda>(sep, cur, s). length s)") auto

definition split_py :: "string \<Rightarrow> string \<Rightarrow> exn + string list" where
  "split_py s sep =
     (if sep = [] then Inl (Exn ValueError ''empty separator'') else Inr (split_from sep [] s))"

text \<open>\<^verbatim>\<open>xs[-1]\<close>: the last element, \<open>IndexError\<close> on the empty list.\<close>

definition index_last :: "'a list \<Rightarrow> exn + 'a" where
  "index_last xs =
     (if xs = [] then Inl (Exn IndexError ''list index out of range'') else Inr (last xs))"

text \<open>
  \<^verbatim>\<open>s.replace(old, new)\<close> replaces every non-overlapping occurrence from the left; with
  an empty \<open>old\<close> it puts \<open>new\<close> before every character and at the end.
\<close>

definition replace_py :: "string \<Rightarrow> string \<Rightarrow> string \<Rightarrow> string" where
  "replace_py s old new =
     (if old = [] then concat (map (\<lambda>c. new @ [c]) s) @ new
      else join_py new (split_from old [] s))"

text \<open>
  \<^verbatim>\<open>os.path.join(a, b)\<close> of \<^verbatim>\<open>posixpath\<close>: a second component that starts with the
  separator replaces the first; otherwise one separator stands between the two.
\<close>

definition os_path_join :: "string \<Rightarrow> string \<Rightarrow> string" where
  "os_path_join a b =
     (if prefix ''/'' b then b
      else if a = [] \<or> suffix ''/'' a then a @ b
      else a @ ''/'' @ b)"

section \<open>URL and audio path (lines 18, 71, 72, 76, 135)\<close>

definition AUDIO_DIR :: string where
  "AUDIO_DIR = ''audio''"

text \<open>Line 135: \<^verbatim>\<open>url = f"https://www.youtube.com/watch?v={video_id}"\<close>.\<close>

definition video_url_of :: "string \<Rightarrow> string" where
  "video_url_of video_id = ''https://www.youtube.com/watch?v='' @ video_id"

text \<open>Line 71: \<^verbatim>\<open>video_id = video_url.split("v=")[-1]\<close>.\<close>

definition url_video_id :: "string \<Rightarrow> exn + string" where
  "url_video_id video_url = bind (split_py video_url ''v='') index_last"

text \<open>Line 72: \<^verbatim>\<open>audio_path = os.path.join(AUDIO_DIR, f"{video_id}.wav")\<close>.\<close>

definition audio_path_of :: "string \<Rightarrow> string" where
  "audio_path_of video_id = os_path_join AUDIO_DIR (video_id @ ''.wav'')"

text \<open>Line 76: \<^verbatim>\<open>audio_path.replace(".wav", ".%(ext)s")\<close>.\<close>

definition outtmpl_of :: "string \<Rightarrow> string" where
  "outtmpl_of audio_path = replace_py audio_path ''.wav'' ''.%(ext)s''"

section \<open>Data model\<close>

text \<open>
  A candidate as the search collaborator returns it:
  \<^verbatim>\<open>v["id"]["videoId"]\<close>, \<^verbatim>\<open>v["snippet"]["title"]\<close>, \<^verbatim>\<open>v["snippet"]["description"]\<close>,
  \<^verbatim>\<open>v["snippet"]["publishedAt"]\<close>.
\<close>

record video =
  videoId :: string
  snippet_title :: string
  snippet_description :: string
  snippet_publishedAt :: string

text \<open>A caption segment; the pipeline reads only \<^verbatim>\<open>c["text"]\<close>.\<close>

record segment =
  seg_text :: string

text \<open>
  A caption track of the caption collaborator; \<open>fetch\<close> is the outcome of
  \<^verbatim>\<open>.fetch()\<close> (the segments, or the error of the network request).
\<close>

record transcript =
  language_code :: string
  is_generated :: bool
  fetch :: "exn + segment list"

text \<open>
  The object \<^verbatim>\<open>list_transcripts\<close> returns keeps the manually created and the generated
  tracks of a video in two dictionaries keyed by language code.
\<close>

record transcript_list =
  manually_created_transcripts :: "string \<rightharpoonup> transcript"
  generated_transcripts :: "string \<rightharpoonup> transcript"

text \<open>The dictionary appended to \<^verbatim>\<open>results\<close> (lines 148 to 155).\<close>

record result_record =
  r_video_id :: string
  r_title :: string
  r_published :: string
  r_source :: string
  r_url :: string
  r_content_en :: string

text \<open>
  What a run does to the outside: the lines printed, the calls of the three stage
  functions, and what happens to the output file. \<open>Opened name\<close>: the file was created or
  truncated by \<^verbatim>\<open>open(name, "w")\<close> and is empty. \<open>Json_dump name results\<close>: the complete
  document of \<open>results\<close> was written to it. \<open>Json_dump_partial name results n\<close>:
  \<^verbatim>\<open>json.dump\<close> raised after the first \<open>n\<close> characters of the document of \<open>results\<close>
  were written, and the file keeps that truncated document. The trace is in program order.
\<close>

datatype event =
    Stdout string
  | Called_get_captions string
  | Called_transcribe_audio string
  | Called_normalize_text string
  | Opened string
  | Json_dump string "result_record list"
  | Json_dump_partial string "result_record list" nat

record world =
  trace :: "event list"
  files :: "string set"

definition emit :: "event \<Rightarrow> world \<Rightarrow> world" where
  "emit e w = w\<lparr>trace := trace w @ [e]\<rparr>"

definition print :: "string \<Rightarrow> world \<Rightarrow> world" where
  "print s w = emit (Stdout s) w"

definition opened :: "string \<Rightarrow> world \<Rightarrow> world" where
  "opened name w = emit (Opened name) (w\<lparr>files := insert name (files w)\<rparr>)"

text \<open>Sequencing of two steps that may raise and that change the world.\<close>

definition bindS ::
  "(world \<Rightarrow> (exn + 'a) \<times> world) \<Rightarrow> ('a \<Rightarrow> world \<Rightarrow> (exn + 'b) \<times> world)
     \<Rightarrow> world \<Rightarrow> (exn + 'b) \<times> world" where
  "bindS m f w = (case m w of (Inl e, w') \<Rightarrow> (Inl e, w') | (Inr a, w') \<Rightarrow> f a w')"

section \<open>The external collaborators\<close>

text \<open>
  The collaborators are parameters of the model. \<open>ydl_download outtmpl url fs\<close> is
  \<^verbatim>\<open>ydl.download([video_url])\<close> with the output template of \<^verbatim>\<open>ydl_opts\<close>, run on the
  files \<open>fs\<close>; it returns the files that exist afterwards. \<open>open_w\<close> is
  \<^verbatim>\<open>open(name, "w")\<close>. \<open>json_dump results\<close> is \<^verbatim>\<open>json.dump(results, f, ...)\<close> together
  with closing the file: it streams the document into the open file and either completes
  or raises \<open>e\<close> after \<open>n\<close> characters (\<open>Inl (e, n)\<close>), for instance \<open>UnicodeEncodeError\<close> on
  a lone surrogate in a title or \<open>OSError\<close> on a full disk.
\<close>

record env =
  youtube_search :: "exn + video list"
  list_transcripts :: "string \<Rightarrow> exn + transcript_list"
  ydl_download :: "string \<Rightarrow> string \<Rightarrow> string set \<Rightarrow> (exn + unit) \<times> string set"
  model_transcribe :: "string \<Rightarrow> exn + string"
  detect :: "string \<Rightarrow> exn + string"
  translate :: "string \<Rightarrow> string \<Rightarrow> string \<Rightarrow> exn + string"
  open_w :: "string \<Rightarrow> exn + unit"
  json_dump :: "result_record list \<Rightarrow> (exn \<times> nat) + unit"

text \<open>
  The two lookups of the caption collaborator's track list. Each takes the language
  codes in order of preference and returns the first track found; when no track of the
  wanted kind has one of the codes, it signals not-found by raising
  \<open>NoTranscriptFound\<close> (it never returns \<^verbatim>\<open>None\<close>).
\<close>

fun find_transcript :: "(string \<rightharpoonup> transcript) \<Rightarrow> string list \<Rightarrow> exn + transcript" where
  "find_transcript d [] = Inl (Exn NoTranscriptFound ''no transcript for the requested languages'')"
| "find_transcript d (l # ls) = (case d l of Some t \<Rightarrow> Inr t | None \<Rightarrow> find_transcript d ls)"

definition find_manually_created_transcript ::
  "transcript_list \<Rightarrow> string list \<Rightarrow> exn + transcript" where
  "find_manually_created_transcript ts language_codes =
     find_transcript (manually_created_transcripts ts) language_codes"

definition find_generated_transcript ::
  "transcript_list \<Rightarrow> string list \<Rightarrow> exn + transcript" where
  "find_generated_transcript ts language_codes =
     find_transcript (generated_transcripts ts) language_codes"

text \<open>
  Truth value of a track object in \<^verbatim>\<open>if track:\<close>. The class defines neither
  \<^verbatim>\<open>__bool__\<close> nor \<^verbatim>\<open>__len__\<close>, so every track is true.
\<close>

definition truthy_transcript :: "transcript \<Rightarrow> bool" where
  "truthy_transcript t = True"

text \<open>
  Truth value of what \<open>get_captions\<close> returns in \<^verbatim>\<open>if captions:\<close>: \<^verbatim>\<open>None\<close> and the
  empty list are false.
\<close>

fun truthy_captions :: "segment list option \<Rightarrow> bool" where
  "truthy_captions None = False"
| "truthy_captions (Some []) = False"
| "truthy_captions (Some (c # cs)) = True"

section \<open>Caption Resolver: \<open>get_captions\<close> (lines 48 to 63)\<close>

text \<open>Lines 53 to 59, the statements of the \<^verbatim>\<open>try\<close> block after the first print.\<close>

definition get_captions_lookup :: "transcript_list \<Rightarrow> exn + segment list" where
  "get_captions_lookup transcripts =
     bind (find_manually_created_transcript transcripts [''si'']) (\<lambda>t1.
       if truthy_transcript t1
       then bind (find_manually_created_transcript transcripts [''si'']) fetch
       else bind (find_manually_created_transcript transcripts [''en'']) (\<lambda>t2.
         if truthy_transcript t2
         then bind (find_manually_created_transcript transcripts [''en'']) fetch
         else bind (find_generated_transcript transcripts [''si'', ''en'']) fetch))"

text \<open>
  Lines 61 to 63: \<^verbatim>\<open>except Exception\<close> prints and returns \<^verbatim>\<open>None\<close>; an exception that
  is not an \<open>Exception\<close> passes through.
\<close>

definition get_captions_except :: "exn \<Rightarrow> world \<Rightarrow> (exn + segment list option) \<times> world" where
  "get_captions_except e w =
     (if isinstance_Exception e then (Inr None, print ''No captions found'' w)
      else (Inl e, w))"

definition get_captions :: "env \<Rightarrow> string \<Rightarrow> world \<Rightarrow> (exn + segment list option) \<times> world" where
  "get_captions E video_id w0 =
     (let w = emit (Called_get_captions video_id) w0 in
      case list_transcripts E video_id of
        Inl e \<Rightarrow> get_captions_except e w
      | Inr transcripts \<Rightarrow>
          (let w1 = print ''transcripts'' w in
           case get_captions_lookup transcripts of
             Inl e \<Rightarrow> get_captions_except e w1
           | Inr segments \<Rightarrow> (Inr (Some segments), w1)))"

section \<open>Audio Transcription Fallback: \<open>transcribe_audio\<close> (lines 70 to 112)\<close>

definition transcribe_audio :: "env \<Rightarrow> string \<Rightarrow> world \<Rightarrow> (exn + string) \<times> world" where
  "transcribe_audio E video_url w0 =
     (let w = emit (Called_transcribe_audio video_url) w0 in
      case url_video_id video_url of
        Inl e \<Rightarrow> (Inl e, w)
      | Inr video_id \<Rightarrow>
          (let audio_path = audio_path_of video_id in
           case ydl_download E (outtmpl_of audio_path) video_url (files w) of
             (Inl e, fs) \<Rightarrow> (Inl e, w\<lparr>files := fs\<rparr>)
           | (Inr u, fs) \<Rightarrow>
               if audio_path \<notin> fs
               then (Inl (Exn RuntimeError (''Audio file not created: '' @ audio_path)),
                     w\<lparr>files := fs\<rparr>)
               else (model_transcribe E audio_path, w\<lparr>files := fs\<rparr>)))"

section \<open>Text Normalizer: \<open>normalize_text\<close> (lines 116 to 122)\<close>

definition normalize_text :: "env \<Rightarrow> string \<Rightarrow> world \<Rightarrow> (exn + string) \<times> world" where
  "normalize_text E txt w0 =
     (let w = emit (Called_normalize_text txt) w0 in
      case detect E txt of
        Inl e \<Rightarrow> (Inl e, w)
      | Inr lang \<Rightarrow>
          if lang = ''si'' then (translate E ''si'' ''en'' txt, w)
          else (Inr txt, w))"

section \<open>Orchestrator: \<open>run_pipeline\<close> (lines 126 to 160)\<close>

text \<open>
  The line printed after the fallback (line 143); its first three bytes are the UTF-8
  encoding of the warning sign.
\<close>

definition no_captions_message :: "string \<Rightarrow> string" where
  "no_captions_message video_url =
     [CHR 0xE2, CHR 0x9A, CHR 0xA0] @ '' No captions for video '' @ video_url
       @ '', skipping transcription''"

text \<open>Lines 139 to 144: the text of one candidate, from the captions or from the audio.\<close>

definition run_pipeline_text ::
  "env \<Rightarrow> segment list option \<Rightarrow> string \<Rightarrow> world \<Rightarrow> (exn + string) \<times> world" where
  "run_pipeline_text E captions video_url w =
     (if truthy_captions captions
      then (Inr (join_py '' '' (map seg_text (case captions of Some cs \<Rightarrow> cs | None \<Rightarrow> []))), w)
      else bindS (transcribe_audio E video_url)
             (\<lambda>txt w'. (Inr txt, print (no_captions_message video_url) w')) w)"

text \<open>Lines 132 to 155: the body of the loop, returning the record it appends.\<close>

definition run_pipeline_body :: "env \<Rightarrow> video \<Rightarrow> world \<Rightarrow> (exn + result_record) \<times> world" where
  "run_pipeline_body E v =
     (let video_id = videoId v;
          title = snippet_title v;
          description = snippet_description v;
          video_url = video_url_of video_id
      in bindS (get_captions E video_id) (\<lambda>captions.
         bindS (run_pipeline_text E captions video_url) (\<lambda>txt.
         bindS (normalize_text E txt) (\<lambda>text_en w.
           (Inr \<lparr> r_video_id = video_id, r_title = title,
                   r_published = snippet_publishedAt v, r_source = ''YouTube'',
                   r_url = video_url, r_content_en = text_en \<rparr>, w)))))"

text \<open>Line 131: the loop over the candidates, \<open>results\<close> being the list built so far.\<close>

fun run_pipeline_loop ::
  "env \<Rightarrow> video list \<Rightarrow> result_record list \<Rightarrow> world \<Rightarrow> (exn + result_record list) \<times> world" where
  "run_pipeline_loop E [] results w = (Inr results, w)"
| "run_pipeline_loop E (v # vs) results w =
     (case run_pipeline_body E v w of
        (Inl e, w') \<Rightarrow> (Inl e, w')
      | (Inr r, w') \<Rightarrow> run_pipeline_loop E vs (results @ [r]) w')"

definition OUTPUT_FILE :: string where
  "OUTPUT_FILE = ''sri_lanka_political_economic_text.json''"

text \<open>The last line printed (line 160); its first three bytes encode the check mark.\<close>

definition complete_message :: string where
  "complete_message = [CHR 0xE2, CHR 0x9C, CHR 0x94] @ '' Data extraction complete''"

definition search_videos :: "env \<Rightarrow> exn + video list" where
  "search_videos E = youtube_search E"

definition run_pipeline :: "env \<Rightarrow> world \<Rightarrow> (exn + unit) \<times> world" where
  "run_pipeline E w =
     (case search_videos E of
        Inl e \<Rightarrow> (Inl e, w)
      | Inr videos \<Rightarrow>
          (case run_pipeline_loop E videos [] w of
             (Inl e, w1) \<Rightarrow> (Inl e, w1)
           | (Inr results, w1) \<Rightarrow>
               (case open_w E OUTPUT_FILE of
                  Inl e \<Rightarrow> (Inl e, w1)
                | Inr u \<Rightarrow>
                    (let w2 = opened OUTPUT_FILE w1 in
                     case json_dump E results of
                       Inl (e, n) \<Rightarrow> (Inl e, emit (Json_dump_partial OUTPUT_FILE results n) w2)
                     | Inr u' \<Rightarrow>
                         (Inr (), print complete_message
                                    (emit (Json_dump OUTPUT_FILE results) w2))))))"

section \<open>Observations on a trace\<close>

text \<open>
  The complete JSON documents written, everything that happened to the output file, and
  the URLs \<open>transcribe_audio\<close> was called with.
\<close>

fun dumps :: "event list \<Rightarrow> (string \<times> result_record list) list" where
  "dumps [] = []"
| "dumps (Json_dump name results # evs) = (name, results) # dumps evs"
| "dumps (e # evs) = dumps evs"

fun file_ops :: "event list \<Rightarrow> event list" where
  "file_ops [] = []"
| "file_ops (Opened name # evs) = Opened name # file_ops evs"
| "file_ops (Json_dump name results # evs) = Json_dump name results # file_ops evs"
| "file_ops (Json_dump_partial name results n # evs) =
     Json_dump_partial name results n # file_ops evs"
| "file_ops (e # evs) = file_ops evs"

fun transcribe_calls :: "event list \<Rightarrow> string list" where
  "transcribe_calls [] = []"
| "transcribe_calls (Called_transcribe_audio u # evs) = u # transcribe_calls evs"
| "transcribe_calls (e # evs) = transcribe_calls evs"

section \<open>A concrete run\<close>

text \<open>
  The videos of the examples: \<open>si1\<close> has a manual Sinhala track, \<open>en1\<close> only a manual
  English track, \<open>gen1\<close> only a generated Sinhala track, \<open>empty1\<close> a manual Sinhala
  track without segments, \<open>none1\<close> no track at all, \<open>net1\<close> a manual Sinhala track whose
  download fails; every other video has captions disabled. The audio download creates
  the audio file of every video but \<open>bad1\<close>.
\<close>

definition seg :: "string \<Rightarrow> segment" where
  "seg s = \<lparr>seg_text = s\<rparr>"

definition track :: "string \<Rightarrow> bool \<Rightarrow> segment list \<Rightarrow> transcript" where
  "track lang gen segs = \<lparr>language_code = lang, is_generated = gen, fetch = Inr segs\<rparr>"

definition si_manual_tracks :: transcript_list where
  "si_manual_tracks =
     \<lparr>manually_created_transcripts =
        [''si'' \<mapsto> track ''si'' False [seg ''a'', seg ''b'', seg ''c'']],
      generated_transcripts = Map.empty\<rparr>"

definition en_manual_tracks :: transcript_list where
  "en_manual_tracks =
     \<lparr>manually_created_transcripts =
        [''en'' \<mapsto> track ''en'' False [seg ''hello'', seg ''world'']],
      generated_transcripts = Map.empty\<rparr>"

definition generated_tracks :: transcript_list where
  "generated_tracks =
     \<lparr>manually_created_transcripts = Map.empty,
      generated_transcripts = [''si'' \<mapsto> track ''si'' True [seg ''auto'']]\<rparr>"

definition empty_si_tracks :: transcript_list where
  "empty_si_tracks =
     \<lparr>manually_created_transcripts = [''si'' \<mapsto> track ''si'' False []],
      generated_transcripts = Map.empty\<rparr>"

definition no_tracks :: transcript_list where
  "no_tracks =
     \<lparr>manually_created_transcripts = Map.empty, generated_transcripts = Map.empty\<rparr>"

definition broken_si_tracks :: transcript_list where
  "broken_si_tracks =
     \<lparr>manually_created_transcripts =
        [''si'' \<mapsto> \<lparr>language_code = ''si'', is_generated = False,
                     fetch = Inl (Exn RequestException ''connection reset'')\<rparr>],
      generated_transcripts = Map.empty\<rparr>"

definition demo_transcripts :: "string \<Rightarrow> exn + transcript_list" where
  "demo_transcripts video_id =
     (if video_id = ''si1'' then Inr si_manual_tracks
      else if video_id = ''en1'' then Inr en_manual_tracks
      else if video_id = ''gen1'' then Inr generated_tracks
      else if video_id = ''empty1'' then Inr empty_si_tracks
      else if video_id = ''none1'' then Inr no_tracks
      else if video_id = ''net1'' then Inr broken_si_tracks
      else Inl (Exn TranscriptsDisabled ''subtitles are disabled''))"

definition demo_download :: "string \<Rightarrow> string \<Rightarrow> string set \<Rightarrow> (exn + unit) \<times> string set" where
  "demo_download outtmpl video_url fs =
     (Inr (), if video_url = video_url_of ''bad1'' then fs
              else insert (audio_path_of (drop 32 video_url)) fs)"

definition demo_env :: "video list \<Rightarrow> env" where
  "demo_env videos =
     \<lparr> youtube_search = Inr videos,
       list_transcripts = demo_transcripts,
       ydl_download = demo_download,
       model_transcribe = (\<lambda>audio_path. Inr ''parliament convenes today''),
       detect = (\<lambda>txt. Inr (if txt = ''a b c'' then ''si'' else ''en'')),
       translate = (\<lambda>src tgt txt. Inr (''EN('' @ txt @ '')'')),
       open_w = (\<lambda>name. Inr ()),
       json_dump = (\<lambda>results. Inr ()) \<rparr>"

definition demo_video :: "string \<Rightarrow> video" where
  "demo_video video_id =
     \<lparr> videoId = video_id, snippet_title = ''title of '' @ video_id,
       snippet_description = [], snippet_publishedAt = ''2026-01-01T00:00:00Z'' \<rparr>"

definition w0 :: world where
  "w0 = \<lparr>trace = [], files = {}\<rparr>"

text \<open>
  Two candidate lists: one where every candidate can be processed (by audio, by captions,
  by audio), and one whose second candidate has neither captions nor audio.
\<close>

definition good_videos :: "video list" where
  "good_videos = [demo_video ''ok1'', demo_video ''si1'', demo_video ''en1'']"

definition bad_videos :: "video list" where
  "bad_videos = [demo_video ''ok1'', demo_video ''bad1'', demo_video ''si1'']"

definition demo_result :: "string \<Rightarrow> string \<Rightarrow> result_record" where
  "demo_result video_id content =
     \<lparr> r_video_id = video_id, r_title = ''title of '' @ video_id,
       r_published = ''2026-01-01T00:00:00Z'', r_source = ''YouTube'',
       r_url = ''https://www.youtube.com/watch?v='' @ video_id, r_content_en = content \<rparr>"

definition good_results :: "result_record list" where
  "good_results =
     [demo_result ''ok1'' ''parliament convenes today'', demo_result ''si1'' ''EN(a b c)'',
      demo_result ''en1'' ''parliament convenes today'']"

text \<open>
  Three environments over the first list in which one collaborator fails: language
  detection on the caption text of \<open>si1\<close>, translation, and the JSON encoder after 40
  characters.
\<close>

definition detect_fails_env :: env where
  "detect_fails_env =
     (demo_env good_videos)
       \<lparr>detect := (\<lambda>s. if s = ''a b c''
                        then Inl (Exn LangDetectException ''No features in text.'')
                        else Inr ''en'')\<rparr>"

definition translate_fails_env :: env where
  "translate_fails_env =
     (demo_env good_videos)
       \<lparr>translate := (\<lambda>src tgt s. Inl (Exn TranslationError ''request failed''))\<rparr>"

definition dump_fails_env :: env where
  "dump_fails_env =
     (demo_env good_videos)
       \<lparr>json_dump := (\<lambda>results. Inl (Exn UnicodeEncodeError ''surrogates not allowed'', 40))\<rparr>"

section \<open>Facts about the string operations\<close>

lemma split_from_not_Nil: "split_from sep cur s \<noteq> []"
  by (induction sep cur s rule: split_from.induct) auto

lemma split_from_no_occurrence:
  "\<not> sublist sep s \<Longrightarrow> split_from sep cur s = [cur @ s]"
proof (induction s arbitrary: cur)
  case Nil
  then show ?case by simp
next
  case (Cons c cs)
  from Cons.prems have np: "\<not> prefix sep (c # cs)" and ns: "\<not> sublist sep cs"
    by (simp_all add: sublist_Cons_right)
  from Cons.IH [OF ns, of "cur @ [c]"] np show ?case by simp
qed

lemma split_from_url:
  "split_from ''v='' [] (video_url_of video_id) =
     ''https://www.youtube.com/watch?'' # split_from ''v='' [] video_id"
  by (simp add: video_url_of_def)

lemma url_video_id_total: "\<exists>video_id. url_video_id video_url = Inr video_id"
  by (simp add: url_video_id_def split_py_def bind_def index_last_def split_from_not_Nil)

lemma join_py_Cons: "join_py sep (x # xs) = x @ concat (map (\<lambda>t. sep @ t) xs)"
  by (induction sep xs arbitrary: x rule: join_py.induct) simp_all

section \<open>Facts about the trace\<close>

lemma file_ops_append: "file_ops (xs @ ys) = file_ops xs @ file_ops ys"
  by (induction xs rule: file_ops.induct) simp_all

lemma transcribe_calls_append:
  "transcribe_calls (xs @ ys) = transcribe_calls xs @ transcribe_calls ys"
  by (induction xs rule: transcribe_calls.induct) simp_all

lemma trace_emit: "trace (emit e w) = trace w @ [e]"
  by (simp add: emit_def)

lemma files_emit: "files (emit e w) = files w"
  by (simp add: emit_def)

lemma trace_print: "trace (print s w) = trace w @ [Stdout s]"
  by (simp add: print_def trace_emit)

lemma get_captions_file_ops:
  "file_ops (trace (snd (get_captions E video_id w))) = file_ops (trace w)"
  by (simp add: get_captions_def get_captions_except_def Let_def trace_print trace_emit
      file_ops_append split: sum.splits)

lemma get_captions_calls:
  "transcribe_calls (trace (snd (get_captions E video_id w))) = transcribe_calls (trace w)"
  by (simp add: get_captions_def get_captions_except_def Let_def trace_print trace_emit
      transcribe_calls_append split: sum.splits)

lemma transcribe_audio_file_ops:
  "file_ops (trace (snd (transcribe_audio E video_url w))) = file_ops (trace w)"
  by (simp add: transcribe_audio_def Let_def trace_emit file_ops_append
      split: sum.splits prod.splits)

lemma transcribe_audio_calls:
  "transcribe_calls (trace (snd (transcribe_audio E video_url w)))
     = transcribe_calls (trace w) @ [video_url]"
  by (simp add: transcribe_audio_def Let_def trace_emit transcribe_calls_append
      split: sum.splits prod.splits)

lemma normalize_text_file_ops:
  "file_ops (trace (snd (normalize_text E txt w))) = file_ops (trace w)"
  by (simp add: normalize_text_def Let_def trace_emit file_ops_append split: sum.splits)

lemma normalize_text_calls:
  "transcribe_calls (trace (snd (normalize_text E txt w))) = transcribe_calls (trace w)"
  by (simp add: normalize_text_def Let_def trace_emit transcribe_calls_append
      split: sum.splits)

lemma run_pipeline_text_file_ops:
  "file_ops (trace (snd (run_pipeline_text E captions video_url w))) = file_ops (trace w)"
proof (cases "truthy_captions captions")
  case True
  then show ?thesis by (simp add: run_pipeline_text_def)
next
  case False
  obtain r w' where t: "transcribe_audio E video_url w = (r, w')"
    by (cases "transcribe_audio E video_url w")
  from transcribe_audio_file_ops [of E video_url w] t
  have "file_ops (trace w') = file_ops (trace w)" by simp
  with False t show ?thesis
    by (cases r) (simp_all add: run_pipeline_text_def bindS_def trace_print file_ops_append)
qed

lemma run_pipeline_body_file_ops:
  "file_ops (trace (snd (run_pipeline_body E v w))) = file_ops (trace w)"
proof -
  obtain c w1 where g: "get_captions E (videoId v) w = (c, w1)"
    by (cases "get_captions E (videoId v) w")
  from get_captions_file_ops [of E "videoId v" w] g
  have d1: "file_ops (trace w1) = file_ops (trace w)" by simp
  show ?thesis
  proof (cases c)
    case (Inl e)
    with g d1 show ?thesis by (simp add: run_pipeline_body_def bindS_def Let_def)
  next
    case (Inr captions)
    obtain t w2 where
      p: "run_pipeline_text E captions (video_url_of (videoId v)) w1 = (t, w2)"
      by (cases "run_pipeline_text E captions (video_url_of (videoId v)) w1")
    from run_pipeline_text_file_ops [of E captions "video_url_of (videoId v)" w1] p d1
    have d2: "file_ops (trace w2) = file_ops (trace w)" by simp
    show ?thesis
    proof (cases t)
      case (Inl e)
      with g Inr p d2 show ?thesis by (simp add: run_pipeline_body_def bindS_def Let_def)
    next
      case (Inr s)
      obtain n w3 where nt: "normalize_text E s w2 = (n, w3)"
        by (cases "normalize_text E s w2")
      from normalize_text_file_ops [of E s w2] nt d2
      have "file_ops (trace w3) = file_ops (trace w)" by simp
      with g \<open>c = Inr captions\<close> p Inr nt show ?thesis
        by (cases n) (simp_all add: run_pipeline_body_def bindS_def Let_def)
    qed
  qed
qed

lemma run_pipeline_loop_file_ops:
  "file_ops (trace (snd (run_pipeline_loop E vs results w))) = file_ops (trace w)"
proof (induction vs arbitrary: results w)
  case Nil
  show ?case by simp
next
  case (Cons v vs)
  obtain r w1 where b: "run_pipeline_body E v w = (r, w1)"
    by (cases "run_pipeline_body E v w")
  from run_pipeline_body_file_ops [of E v w] b
  have "file_ops (trace w1) = file_ops (trace w)" by simp
  with b Cons.IH show ?case by (cases r) simp_all
qed

lemma dumps_append: "dumps (xs @ ys) = dumps xs @ dumps ys"
  by (induction xs rule: dumps.induct) simp_all

lemma dumps_file_ops: "dumps (file_ops evs) = dumps evs"
  by (induction evs rule: file_ops.induct) simp_all

lemma dumps_of_file_ops: "file_ops xs = file_ops ys \<Longrightarrow> dumps xs = dumps ys"
  by (metis dumps_file_ops)

lemma get_captions_dumps:
  "dumps (trace (snd (get_captions E video_id w))) = dumps (trace w)"
  by (rule dumps_of_file_ops) (rule get_captions_file_ops)

lemma run_pipeline_loop_dumps:
  "dumps (trace (snd (run_pipeline_loop E vs results w))) = dumps (trace w)"
  by (rule dumps_of_file_ops) (rule run_pipeline_loop_file_ops)

lemma trace_opened: "trace (opened name w) = trace w @ [Opened name]"
  by (simp add: opened_def emit_def)

section \<open>Facts about the loop\<close>

lemma run_pipeline_loop_append:
  "run_pipeline_loop E (us @ vs) results w =
     (case run_pipeline_loop E us results w of
        (Inl e, w') \<Rightarrow> (Inl e, w')
      | (Inr results', w') \<Rightarrow> run_pipeline_loop E vs results' w')"
  by (induction us arbitrary: results w) (simp_all split: prod.splits sum.splits)

lemma run_pipeline_body_fields:
  "run_pipeline_body E v w = (Inr r, w') \<Longrightarrow>
     r_video_id r = videoId v \<and> r_title r = snippet_title v
     \<and> r_published r = snippet_publishedAt v \<and> r_source r = ''YouTube''
     \<and> r_url r = video_url_of (videoId v)"
  by (auto simp: run_pipeline_body_def bindS_def Let_def split: prod.splits sum.splits)

lemma run_pipeline_loop_map:
  assumes body: "\<And>v w r w'. run_pipeline_body E v w = (Inr r, w') \<Longrightarrow> f r = g v"
  shows "run_pipeline_loop E vs results w = (Inr results', w') \<Longrightarrow>
     map f results' = map f results @ map g vs"
proof (induction vs arbitrary: results w)
  case Nil
  then show ?case by simp
next
  case (Cons v vs)
  obtain r w1 where b: "run_pipeline_body E v w = (r, w1)"
    by (cases "run_pipeline_body E v w")
  show ?case
  proof (cases r)
    case (Inl e)
    with b Cons.prems show ?thesis by simp
  next
    case (Inr rec)
    with b Cons.prems have "run_pipeline_loop E vs (results @ [rec]) w1 = (Inr results', w')"
      by simp
    from Cons.IH [OF this] body [of v w rec w1] b Inr
    show ?thesis by simp
  qed
qed

section \<open>Facts about the calls of \<open>transcribe_audio\<close>\<close>

lemma run_pipeline_text_calls:
  "transcribe_calls (trace (snd (run_pipeline_text E captions video_url w)))
     = transcribe_calls (trace w) @ (if truthy_captions captions then [] else [video_url])"
proof (cases "truthy_captions captions")
  case True
  then show ?thesis by (simp add: run_pipeline_text_def)
next
  case False
  obtain r w' where t: "transcribe_audio E video_url w = (r, w')"
    by (cases "transcribe_audio E video_url w")
  from transcribe_audio_calls [of E video_url w] t
  have "transcribe_calls (trace w') = transcribe_calls (trace w) @ [video_url]" by simp
  with False t show ?thesis
    by (cases r)
      (simp_all add: run_pipeline_text_def bindS_def trace_print transcribe_calls_append)
qed

lemma run_pipeline_body_calls:
  assumes g: "get_captions E (videoId v) w = (Inr captions, w1)"
  shows "transcribe_calls (trace (snd (run_pipeline_body E v w)))
     = transcribe_calls (trace w)
         @ (if truthy_captions captions then [] else [video_url_of (videoId v)])"
proof -
  from get_captions_calls [of E "videoId v" w] g
  have c1: "transcribe_calls (trace w1) = transcribe_calls (trace w)" by simp
  obtain t w2 where
    p: "run_pipeline_text E captions (video_url_of (videoId v)) w1 = (t, w2)"
    by (cases "run_pipeline_text E captions (video_url_of (videoId v)) w1")
  from run_pipeline_text_calls [of E captions "video_url_of (videoId v)" w1] p c1
  have c2: "transcribe_calls (trace w2) = transcribe_calls (trace w)
      @ (if truthy_captions captions then [] else [video_url_of (videoId v)])"
    by simp
  show ?thesis
  proof (cases t)
    case (Inl e)
    with g p c2 show ?thesis by (simp add: run_pipeline_body_def bindS_def Let_def)
  next
    case (Inr s)
    obtain n w3 where nt: "normalize_text E s w2 = (n, w3)"
      by (cases "normalize_text E s w2")
    from normalize_text_calls [of E s w2] nt c2
    have "transcribe_calls (trace w3) = transcribe_calls (trace w)
      @ (if truthy_captions captions then [] else [video_url_of (videoId v)])"
      by simp
    with g p Inr nt show ?thesis
      by (cases n) (simp_all add: run_pipeline_body_def bindS_def Let_def)
  qed
qed

section \<open>Evaluating the concrete run\<close>

lemmas stage_defs =
  get_captions_def get_captions_lookup_def get_captions_except_def
  find_manually_created_transcript_def find_generated_transcript_def truthy_transcript_def
  transcribe_audio_def normalize_text_def run_pipeline_text_def run_pipeline_body_def
  run_pipeline_def search_videos_def bind_def bindS_def emit_def print_def opened_def Let_def

lemmas path_defs =
  url_video_id_def split_py_def index_last_def audio_path_of_def os_path_join_def
  AUDIO_DIR_def outtmpl_of_def replace_py_def video_url_of_def suffix_to_prefix

lemmas demo_defs =
  demo_env_def demo_transcripts_def demo_download_def demo_video_def w0_def seg_def track_def
  si_manual_tracks_def en_manual_tracks_def generated_tracks_def empty_si_tracks_def
  no_tracks_def broken_si_tracks_def demo_result_def good_results_def
  detect_fails_env_def translate_fails_env_def dump_fails_env_def

section \<open>The claims\<close>

text \<open>
  C1. The claim: a video without a manual \<open>si\<close> track but with a manual \<open>en\<close> track
  resolves to the English track, and a video with generated tracks only resolves to the
  generated track. The code does neither. The lookup of the manual \<open>si\<close> track on line 53
  raises \<open>NoTranscriptFound\<close> when there is no such track, the handler on line 61 turns that
  into \<^verbatim>\<open>None\<close>, and lines 56 to 59 are never reached: for every video without a manual
  \<open>si\<close> track \<open>get_captions\<close> returns \<^verbatim>\<open>None\<close>, whatever other tracks exist.
\<close>

theorem get_captions_without_manual_si:
  assumes "list_transcripts E video_id = Inr ts"
    and "manually_created_transcripts ts ''si'' = None"
  shows "fst (get_captions E video_id w) = Inr None"
  using assms
  by (simp add: get_captions_def get_captions_lookup_def find_manually_created_transcript_def
      bind_def get_captions_except_def Let_def)

theorem get_captions_without_manual_si_witness:
  "list_transcripts (demo_env []) ''en1'' = Inr en_manual_tracks
   \<and> manually_created_transcripts en_manual_tracks ''si'' = None
   \<and> manually_created_transcripts en_manual_tracks ''en''
       = Some (track ''en'' False [seg ''hello'', seg ''world''])
   \<and> fst (get_captions (demo_env []) ''en1'' w0) = Inr None
   \<and> list_transcripts (demo_env []) ''gen1'' = Inr generated_tracks
   \<and> manually_created_transcripts generated_tracks = Map.empty
   \<and> generated_transcripts generated_tracks ''si'' = Some (track ''si'' True [seg ''auto''])
   \<and> fst (get_captions (demo_env []) ''gen1'' w0) = Inr None"
proof -
  have e1: "list_transcripts (demo_env []) ''en1'' = Inr en_manual_tracks"
    by (simp add: demo_env_def demo_transcripts_def)
  have e2: "manually_created_transcripts en_manual_tracks ''si'' = None"
    by (simp add: en_manual_tracks_def)
  have g1: "list_transcripts (demo_env []) ''gen1'' = Inr generated_tracks"
    by (simp add: demo_env_def demo_transcripts_def)
  have g2: "manually_created_transcripts generated_tracks ''si'' = None"
    by (simp add: generated_tracks_def)
  from get_captions_without_manual_si [OF e1 e2, of w0]
    get_captions_without_manual_si [OF g1 g2, of w0] e1 e2 g1
  show ?thesis by (simp add: en_manual_tracks_def generated_tracks_def)
qed

text \<open>
  C2. Whenever the caption provider signals an error inside the \<^verbatim>\<open>try\<close> block (listing the
  tracks fails, a track is not found, fetching a track fails), or the video has no caption
  track at all, \<open>get_captions\<close> returns \<^verbatim>\<open>None\<close> and raises nothing. The provider's errors
  are instances of \<open>Exception\<close>.
\<close>

theorem get_captions_absent_on_error:
  assumes "(\<exists>e. list_transcripts E video_id = Inl e \<and> isinstance_Exception e)
     \<or> (\<exists>ts e. list_transcripts E video_id = Inr ts \<and> get_captions_lookup ts = Inl e
           \<and> isinstance_Exception e)
     \<or> (\<exists>ts. list_transcripts E video_id = Inr ts
           \<and> manually_created_transcripts ts = Map.empty
           \<and> generated_transcripts ts = Map.empty)"
  shows "fst (get_captions E video_id w) = Inr None"
  using assms
  by (auto simp: get_captions_def get_captions_lookup_def get_captions_except_def Let_def
      find_manually_created_transcript_def bind_def)

theorem get_captions_absent_on_error_witness:
  "list_transcripts (demo_env []) ''off1'' = Inl (Exn TranscriptsDisabled ''subtitles are disabled'')
   \<and> fst (get_captions (demo_env []) ''off1'' w0) = Inr None
   \<and> list_transcripts (demo_env []) ''net1'' = Inr broken_si_tracks
   \<and> get_captions_lookup broken_si_tracks = Inl (Exn RequestException ''connection reset'')
   \<and> fst (get_captions (demo_env []) ''net1'' w0) = Inr None
   \<and> list_transcripts (demo_env []) ''none1'' = Inr no_tracks
   \<and> manually_created_transcripts no_tracks = Map.empty
   \<and> generated_transcripts no_tracks = Map.empty
   \<and> fst (get_captions (demo_env []) ''none1'' w0) = Inr None"
proof -
  have a: "list_transcripts (demo_env []) ''off1''
      = Inl (Exn TranscriptsDisabled ''subtitles are disabled'')"
    by (simp add: demo_env_def demo_transcripts_def)
  have b1: "list_transcripts (demo_env []) ''net1'' = Inr broken_si_tracks"
    by (simp add: demo_env_def demo_transcripts_def)
  have b2: "get_captions_lookup broken_si_tracks = Inl (Exn RequestException ''connection reset'')"
    by (simp add: get_captions_lookup_def find_manually_created_transcript_def bind_def
        truthy_transcript_def broken_si_tracks_def)
  have c1: "list_transcripts (demo_env []) ''none1'' = Inr no_tracks"
    by (simp add: demo_env_def demo_transcripts_def)
  have c2: "manually_created_transcripts no_tracks = Map.empty"
    "generated_transcripts no_tracks = Map.empty"
    by (simp_all add: no_tracks_def)
  have "fst (get_captions (demo_env []) ''off1'' w0) = Inr None"
    by (rule get_captions_absent_on_error) (simp add: a)
  moreover have "fst (get_captions (demo_env []) ''net1'' w0) = Inr None"
    by (rule get_captions_absent_on_error) (simp add: b1 b2)
  moreover have "fst (get_captions (demo_env []) ''none1'' w0) = Inr None"
    by (rule get_captions_absent_on_error) (simp add: c1 c2)
  ultimately show ?thesis using a b1 b2 c1 c2 by simp
qed

text \<open>
  C5. \<open>normalize_text\<close> returns its input unchanged when the detected language is not
  \<open>si\<close>, and the outcome of translating from \<open>si\<close> to \<open>en\<close> when it is \<open>si\<close>.
\<close>

theorem normalize_text_identity_or_translation:
  "(\<forall>lang. detect E s = Inr lang \<and> lang \<noteq> ''si'' \<longrightarrow> fst (normalize_text E s w) = Inr s)
   \<and> (detect E s = Inr ''si'' \<longrightarrow> fst (normalize_text E s w) = translate E ''si'' ''en'' s)"
  by (simp add: normalize_text_def Let_def)

theorem normalize_text_identity_or_translation_witness:
  "detect (demo_env []) ''parliament convenes today'' = Inr ''en''
   \<and> fst (normalize_text (demo_env []) ''parliament convenes today'' w0)
       = Inr ''parliament convenes today''
   \<and> detect (demo_env []) ''a b c'' = Inr ''si''
   \<and> translate (demo_env []) ''si'' ''en'' ''a b c'' = Inr ''EN(a b c)''
   \<and> fst (normalize_text (demo_env []) ''a b c'' w0) = Inr ''EN(a b c)''"
proof -
  have d1: "detect (demo_env []) ''parliament convenes today'' = Inr ''en''"
    by (simp add: demo_env_def)
  have d2: "detect (demo_env []) ''a b c'' = Inr ''si''"
    by (simp add: demo_env_def)
  have t2: "translate (demo_env []) ''si'' ''en'' ''a b c'' = Inr ''EN(a b c)''"
    by (simp add: demo_env_def)
  from normalize_text_identity_or_translation
    [of "demo_env []" "''parliament convenes today''" w0] d1
  have n1: "fst (normalize_text (demo_env []) ''parliament convenes today'' w0)
      = Inr ''parliament convenes today''"
    by simp
  from normalize_text_identity_or_translation [of "demo_env []" "''a b c''" w0] d2 t2
  have n2: "fst (normalize_text (demo_env []) ''a b c'' w0) = Inr ''EN(a b c)''"
    by simp
  from d1 d2 t2 n1 n2 show ?thesis by simp
qed

text \<open>
  C6. The claim: when captions are present, the text passed on is the segments' texts
  joined by single spaces. It fails for a caption list that is present but has no segment:
  the join would be the empty text, but line 139 takes the empty list as false and the text
  handed to \<open>normalize_text\<close> is the audio transcription.
\<close>

theorem empty_captions_text_is_transcription:
  "fst (get_captions (demo_env []) (videoId (demo_video ''empty1'')) w0) = Inr (Some [])
   \<and> join_py '' '' (map seg_text []) = []
   \<and> Called_normalize_text ''parliament convenes today''
       \<in> set (trace (snd (run_pipeline_body (demo_env []) (demo_video ''empty1'') w0)))
   \<and> Called_normalize_text (join_py '' '' (map seg_text []))
       \<notin> set (trace (snd (run_pipeline_body (demo_env []) (demo_video ''empty1'') w0)))"
  by (simp add: stage_defs path_defs demo_defs)

text \<open>
  C6, amended. When \<open>get_captions\<close> returns a list with at least one segment, the text
  handed to \<open>normalize_text\<close> is the first segment's text followed, for every further
  segment in order, by one space and that segment's text; for the segments a, b, c it is
  \<open>a b c\<close>.
\<close>

theorem captions_joined_by_single_space:
  assumes "get_captions E (videoId v) w = (Inr (Some (c # cs)), w1)"
  shows "run_pipeline_body E v w =
      bindS (normalize_text E (seg_text c @ concat (map (\<lambda>s. '' '' @ seg_text s) cs)))
        (\<lambda>text_en w'.
           (Inr \<lparr> r_video_id = videoId v, r_title = snippet_title v,
                   r_published = snippet_publishedAt v, r_source = ''YouTube'',
                   r_url = video_url_of (videoId v), r_content_en = text_en \<rparr>, w')) w1
    \<and> join_py '' '' (map seg_text [seg ''a'', seg ''b'', seg ''c'']) = ''a b c''"
  using assms
  by (simp add: run_pipeline_body_def run_pipeline_text_def bindS_def Let_def join_py_Cons
      seg_def comp_def)

theorem captions_joined_by_single_space_witness:
  "get_captions (demo_env []) (videoId (demo_video ''si1'')) w0
     = (Inr (Some [seg ''a'', seg ''b'', seg ''c'']),
        \<lparr>trace = [Called_get_captions ''si1'', Stdout ''transcripts''], files = {}\<rparr>)
   \<and> trace (snd (run_pipeline_body (demo_env []) (demo_video ''si1'') w0))
       = [Called_get_captions ''si1'', Stdout ''transcripts'', Called_normalize_text ''a b c'']
   \<and> fst (run_pipeline_body (demo_env []) (demo_video ''si1'') w0)
       = Inr \<lparr> r_video_id = ''si1'', r_title = ''title of si1'',
               r_published = ''2026-01-01T00:00:00Z'', r_source = ''YouTube'',
               r_url = ''https://www.youtube.com/watch?v=si1'',
               r_content_en = ''EN(a b c)'' \<rparr>"
proof -
  have g: "get_captions (demo_env []) (videoId (demo_video ''si1'')) w0
     = (Inr (Some (seg ''a'' # [seg ''b'', seg ''c''])),
        \<lparr>trace = [Called_get_captions ''si1'', Stdout ''transcripts''], files = {}\<rparr>)"
    by (simp add: stage_defs demo_defs)
  from captions_joined_by_single_space [OF g] g show ?thesis
    by (simp add: normalize_text_def bindS_def emit_def Let_def demo_env_def demo_video_def
        seg_def video_url_of_def)
qed

text \<open>
  C7. The claim: whenever \<open>get_captions\<close> returns something other than \<^verbatim>\<open>None\<close>,
  \<open>transcribe_audio\<close> is not called. It fails for the empty segment list, which is not
  \<^verbatim>\<open>None\<close> but is false in \<^verbatim>\<open>if captions:\<close>: the video \<open>empty1\<close> is transcribed.
\<close>

theorem present_but_empty_captions_transcribed:
  "fst (get_captions (demo_env []) (videoId (demo_video ''empty1'')) w0) = Inr (Some [])
   \<and> transcribe_calls (trace w0) = []
   \<and> transcribe_calls (trace (snd (run_pipeline_body (demo_env []) (demo_video ''empty1'') w0)))
       = [''https://www.youtube.com/watch?v=empty1'']"
  by (simp add: stage_defs path_defs demo_defs)

text \<open>
  C7, amended. Whenever \<open>get_captions\<close> returns a list with at least one segment,
  processing the candidate adds no call of \<open>transcribe_audio\<close>.
\<close>

theorem nonempty_captions_not_transcribed:
  assumes "get_captions E (videoId v) w = (Inr (Some (c # cs)), w1)"
  shows "transcribe_calls (trace (snd (run_pipeline_body E v w))) = transcribe_calls (trace w)"
  using run_pipeline_body_calls [OF assms] by simp

theorem nonempty_captions_not_transcribed_witness:
  "get_captions (demo_env []) (videoId (demo_video ''si1'')) w0
     = (Inr (Some [seg ''a'', seg ''b'', seg ''c'']),
        \<lparr>trace = [Called_get_captions ''si1'', Stdout ''transcripts''], files = {}\<rparr>)
   \<and> transcribe_calls (trace (snd (run_pipeline_body (demo_env []) (demo_video ''si1'') w0)))
       = []"
proof -
  have g: "get_captions (demo_env []) (videoId (demo_video ''si1'')) w0
     = (Inr (Some (seg ''a'' # [seg ''b'', seg ''c''])),
        \<lparr>trace = [Called_get_captions ''si1'', Stdout ''transcripts''], files = {}\<rparr>)"
    by (simp add: stage_defs demo_defs)
  from nonempty_captions_not_transcribed [OF g] g show ?thesis
    by (simp add: w0_def)
qed

text \<open>
  C9. When \<open>get_captions\<close> returns the empty segment list, lines 139 to 144 do what they
  do for \<^verbatim>\<open>None\<close>: \<open>transcribe_audio\<close> is called with the video's URL, and the text passed
  on is the transcription, not the empty join.
\<close>

theorem empty_captions_treated_as_absent:
  assumes "get_captions E (videoId v) w = (Inr (Some []), w1)"
  shows "run_pipeline_text E (Some []) (video_url_of (videoId v)) w1
       = run_pipeline_text E None (video_url_of (videoId v)) w1
    \<and> run_pipeline_text E (Some []) (video_url_of (videoId v)) w1
       = bindS (transcribe_audio E (video_url_of (videoId v)))
           (\<lambda>s w'. (Inr s, print (no_captions_message (video_url_of (videoId v))) w')) w1
    \<and> transcribe_calls (trace (snd (run_pipeline_body E v w)))
       = transcribe_calls (trace w) @ [video_url_of (videoId v)]"
  using run_pipeline_body_calls [OF assms] by (simp add: run_pipeline_text_def)

theorem empty_captions_treated_as_absent_witness:
  "get_captions (demo_env []) (videoId (demo_video ''empty1'')) w0
     = (Inr (Some []),
        \<lparr>trace = [Called_get_captions ''empty1'', Stdout ''transcripts''], files = {}\<rparr>)
   \<and> transcribe_calls (trace (snd (run_pipeline_body (demo_env []) (demo_video ''empty1'') w0)))
       = [''https://www.youtube.com/watch?v=empty1'']
   \<and> fst (run_pipeline_text (demo_env []) (Some []) (video_url_of ''empty1'')
         \<lparr>trace = [Called_get_captions ''empty1'', Stdout ''transcripts''], files = {}\<rparr>)
       = Inr ''parliament convenes today''"
proof -
  have g: "get_captions (demo_env []) (videoId (demo_video ''empty1'')) w0
     = (Inr (Some []),
        \<lparr>trace = [Called_get_captions ''empty1'', Stdout ''transcripts''], files = {}\<rparr>)"
    by (simp add: stage_defs demo_defs)
  have r: "fst (run_pipeline_text (demo_env []) (Some []) (video_url_of ''empty1'')
         \<lparr>trace = [Called_get_captions ''empty1'', Stdout ''transcripts''], files = {}\<rparr>)
       = Inr ''parliament convenes today''"
    by (simp add: stage_defs path_defs demo_defs)
  from empty_captions_treated_as_absent [OF g]
  have c: "transcribe_calls
      (trace (snd (run_pipeline_body (demo_env []) (demo_video ''empty1'') w0)))
       = [''https://www.youtube.com/watch?v=empty1'']"
    by (simp add: w0_def demo_video_def video_url_of_def)
  from g c r show ?thesis by simp
qed

text \<open>
  C10. The claim: for every video id without \<open>v=\<close> the id cut from the URL is the id
  itself, so the audio path is \<open>audio/<video_id>.wav\<close>. The first half holds; the second
  fails for an id that starts with a slash, where \<^verbatim>\<open>os.path.join\<close> drops the directory.
\<close>

theorem audio_path_of_slash_id:
  "\<not> sublist ''v='' ''/x''
   \<and> url_video_id (video_url_of ''/x'') = Inr ''/x''
   \<and> audio_path_of ''/x'' = ''/x.wav''
   \<and> audio_path_of ''/x'' \<noteq> ''audio/'' @ ''/x'' @ ''.wav''"
  by (simp add: path_defs bind_def sublist_code)

text \<open>
  C10, amended. For every video id without \<open>v=\<close>, the id that \<open>transcribe_audio\<close> cuts from
  the URL the orchestrator builds is the id itself; if moreover the id does not start with
  a slash, the audio path is \<open>audio/<video_id>.wav\<close>.
\<close>

theorem url_video_id_roundtrip:
  assumes "\<not> sublist ''v='' video_id"
  shows "url_video_id (video_url_of video_id) = Inr video_id
    \<and> (\<not> prefix ''/'' video_id \<longrightarrow> audio_path_of video_id = ''audio/'' @ video_id @ ''.wav'')"
proof -
  from split_from_no_occurrence [OF assms, of "[]"]
  have "split_from ''v='' [] (video_url_of video_id)
      = [''https://www.youtube.com/watch?'', video_id]"
    by (simp add: split_from_url)
  then have "url_video_id (video_url_of video_id) = Inr video_id"
    by (simp add: url_video_id_def split_py_def bind_def index_last_def)
  moreover have "\<not> prefix ''/'' video_id \<Longrightarrow>
      audio_path_of video_id = ''audio/'' @ video_id @ ''.wav''"
    by (cases video_id) (simp_all add: audio_path_of_def os_path_join_def AUDIO_DIR_def suffix_to_prefix)
  ultimately show ?thesis by blast
qed

theorem url_video_id_roundtrip_witness:
  "\<not> sublist ''v='' ''dQw4w9WgXcQ'' \<and> \<not> prefix ''/'' ''dQw4w9WgXcQ''
   \<and> url_video_id (video_url_of ''dQw4w9WgXcQ'') = Inr ''dQw4w9WgXcQ''
   \<and> audio_path_of ''dQw4w9WgXcQ'' = ''audio/dQw4w9WgXcQ.wav''"
proof -
  have h: "\<not> sublist ''v='' ''dQw4w9WgXcQ''" by (simp add: sublist_code)
  have p: "\<not> prefix ''/'' ''dQw4w9WgXcQ''" by simp
  from url_video_id_roundtrip [OF h] h p show ?thesis by simp
qed

text \<open>
  C8. When the run succeeds, the one document it writes holds one record per candidate, in
  the order of the candidates the search returned: the ids, titles, publication dates and
  URLs of the records are those of the candidates, position by position, whichever branch
  each candidate took.
\<close>

theorem results_in_candidate_order:
  assumes search: "youtube_search E = Inr videos"
    and run: "run_pipeline E w = (Inr (), w')"
  shows "\<exists>results. dumps (trace w') = dumps (trace w) @ [(OUTPUT_FILE, results)]
    \<and> map r_video_id results = map videoId videos
    \<and> map r_title results = map snippet_title videos
    \<and> map r_published results = map snippet_publishedAt videos
    \<and> map r_url results = map (\<lambda>v. video_url_of (videoId v)) videos"
proof -
  obtain r w1 where l: "run_pipeline_loop E videos [] w = (r, w1)"
    by (cases "run_pipeline_loop E videos [] w")
  from search run l obtain results where r: "r = Inr results"
    by (cases r) (simp_all add: run_pipeline_def search_videos_def)
  from search run l r
  have w': "w' = print complete_message
      (emit (Json_dump OUTPUT_FILE results) (opened OUTPUT_FILE w1))"
    by (simp add: run_pipeline_def search_videos_def Let_def split: sum.splits prod.splits)
  from run_pipeline_loop_dumps [of E videos "[]" w] l
  have "dumps (trace w1) = dumps (trace w)" by simp
  with w' have d: "dumps (trace w') = dumps (trace w) @ [(OUTPUT_FILE, results)]"
    by (simp add: trace_print trace_emit trace_opened dumps_append)
  from l r have l': "run_pipeline_loop E videos [] w = (Inr results, w1)" by simp
  have "map r_video_id results = map videoId videos"
    using run_pipeline_loop_map [of E r_video_id videoId, OF _ l']
      run_pipeline_body_fields by simp
  moreover have "map r_title results = map snippet_title videos"
    using run_pipeline_loop_map [of E r_title snippet_title, OF _ l']
      run_pipeline_body_fields by simp
  moreover have "map r_published results = map snippet_publishedAt videos"
    using run_pipeline_loop_map [of E r_published snippet_publishedAt, OF _ l']
      run_pipeline_body_fields by simp
  moreover have "map r_url results = map (\<lambda>v. video_url_of (videoId v)) videos"
    using run_pipeline_loop_map [of E r_url "\<lambda>v. video_url_of (videoId v)", OF _ l']
      run_pipeline_body_fields by simp
  ultimately show ?thesis using d by blast
qed

theorem results_in_candidate_order_witness:
  "youtube_search (demo_env good_videos) = Inr good_videos
   \<and> fst (run_pipeline (demo_env good_videos) w0) = Inr ()
   \<and> map videoId good_videos = [''ok1'', ''si1'', ''en1'']
   \<and> (\<exists>results.
        dumps (trace (snd (run_pipeline (demo_env good_videos) w0))) = [(OUTPUT_FILE, results)]
        \<and> map r_video_id results = [''ok1'', ''si1'', ''en1''])
   \<and> map r_content_en (snd (hd (dumps (trace (snd (run_pipeline (demo_env good_videos) w0))))))
       = [''parliament convenes today'', ''EN(a b c)'', ''parliament convenes today'']"
proof -
  have s: "youtube_search (demo_env good_videos) = Inr good_videos"
    by (simp add: demo_env_def)
  have f: "fst (run_pipeline (demo_env good_videos) w0) = Inr ()"
    by (simp add: good_videos_def stage_defs path_defs demo_defs)
  then have r: "run_pipeline (demo_env good_videos) w0
      = (Inr (), snd (run_pipeline (demo_env good_videos) w0))"
    by (simp add: prod_eq_iff)
  have i: "map videoId good_videos = [''ok1'', ''si1'', ''en1'']"
    by (simp add: good_videos_def demo_video_def)
  have c: "map r_content_en
      (snd (hd (dumps (trace (snd (run_pipeline (demo_env good_videos) w0))))))
       = [''parliament convenes today'', ''EN(a b c)'', ''parliament convenes today'']"
    by (simp add: good_videos_def stage_defs path_defs demo_defs)
  from results_in_candidate_order [OF s r] i
  have "\<exists>results.
        dumps (trace (snd (run_pipeline (demo_env good_videos) w0))) = [(OUTPUT_FILE, results)]
        \<and> map r_video_id results = [''ok1'', ''si1'', ''en1'']"
    by (auto simp: w0_def)
  with s f i c show ?thesis by simp
qed

text \<open>
  C3. A candidate without captions whose audio file does not exist after the download
  makes \<open>transcribe_audio\<close> raise \<open>RuntimeError\<close>; nothing catches it, \<open>run_pipeline\<close> ends
  with that error, and the last thing the run did is the call of \<open>transcribe_audio\<close> for
  this candidate: no later candidate is touched and nothing is written.
\<close>

theorem missing_audio_aborts_batch:
  assumes search: "youtube_search E = Inr (us @ v # vs)"
    and before: "run_pipeline_loop E us [] w = (Inr rs, w1)"
    and absent: "get_captions E (videoId v) w1 = (Inr None, w2)"
    and vid: "url_video_id (video_url_of (videoId v)) = Inr video_id"
    and download: "ydl_download E (outtmpl_of (audio_path_of video_id))
        (video_url_of (videoId v)) (files w2) = (Inr (), fs)"
    and missing: "audio_path_of video_id \<notin> fs"
  shows "transcribe_audio E (video_url_of (videoId v)) w2
       = (Inl (Exn RuntimeError (''Audio file not created: '' @ audio_path_of video_id)),
          (emit (Called_transcribe_audio (video_url_of (videoId v))) w2)\<lparr>files := fs\<rparr>)
    \<and> run_pipeline E w
       = (Inl (Exn RuntimeError (''Audio file not created: '' @ audio_path_of video_id)),
          (emit (Called_transcribe_audio (video_url_of (videoId v))) w2)\<lparr>files := fs\<rparr>)
    \<and> trace (snd (run_pipeline E w))
       = trace w2 @ [Called_transcribe_audio (video_url_of (videoId v))]
    \<and> dumps (trace (snd (run_pipeline E w))) = dumps (trace w)"
proof -
  let ?url = "video_url_of (videoId v)"
  let ?err = "Exn RuntimeError (''Audio file not created: '' @ audio_path_of video_id)"
  let ?wf = "(emit (Called_transcribe_audio ?url) w2)\<lparr>files := fs\<rparr>"
  from vid download missing have t: "transcribe_audio E ?url w2 = (Inl ?err, ?wf)"
    by (simp add: transcribe_audio_def Let_def files_emit)
  then have "run_pipeline_text E None ?url w2 = (Inl ?err, ?wf)"
    by (simp add: run_pipeline_text_def bindS_def)
  with absent have "run_pipeline_body E v w1 = (Inl ?err, ?wf)"
    by (simp add: run_pipeline_body_def bindS_def Let_def)
  with before have "run_pipeline_loop E (us @ v # vs) [] w = (Inl ?err, ?wf)"
    by (simp add: run_pipeline_loop_append)
  with search have r: "run_pipeline E w = (Inl ?err, ?wf)"
    by (simp add: run_pipeline_def search_videos_def)
  from run_pipeline_loop_dumps [of E us "[]" w] before
  have "dumps (trace w1) = dumps (trace w)" by simp
  moreover from get_captions_dumps [of E "videoId v" w1] absent
  have "dumps (trace w2) = dumps (trace w1)" by simp
  ultimately have "dumps (trace ?wf) = dumps (trace w)"
    by (simp add: trace_emit dumps_append)
  with t r show ?thesis by (simp add: trace_emit)
qed

theorem missing_audio_aborts_batch_witness:
  "youtube_search (demo_env bad_videos)
     = Inr ([demo_video ''ok1''] @ demo_video ''bad1'' # [demo_video ''si1''])
   \<and> map r_video_id
        (case fst (run_pipeline_loop (demo_env bad_videos) [demo_video ''ok1''] [] w0) of
           Inr rs \<Rightarrow> rs | Inl e \<Rightarrow> []) = [''ok1'']
   \<and> fst (get_captions (demo_env bad_videos) (videoId (demo_video ''bad1''))
          (snd (run_pipeline_loop (demo_env bad_videos) [demo_video ''ok1''] [] w0))) = Inr None
   \<and> audio_path_of ''bad1'' = ''audio/bad1.wav''
   \<and> fst (run_pipeline (demo_env bad_videos) w0)
       = Inl (Exn RuntimeError ''Audio file not created: audio/bad1.wav'')
   \<and> transcribe_calls (trace (snd (run_pipeline (demo_env bad_videos) w0)))
       = [''https://www.youtube.com/watch?v=ok1'', ''https://www.youtube.com/watch?v=bad1'']
   \<and> Called_get_captions ''si1'' \<notin> set (trace (snd (run_pipeline (demo_env bad_videos) w0)))
   \<and> dumps (trace (snd (run_pipeline (demo_env bad_videos) w0))) = []"
proof -
  let ?E = "demo_env bad_videos"
  let ?l = "run_pipeline_loop ?E [demo_video ''ok1''] [] w0"
  let ?g = "get_captions ?E (videoId (demo_video ''bad1'')) (snd ?l)"
  have search: "youtube_search ?E
      = Inr ([demo_video ''ok1''] @ demo_video ''bad1'' # [demo_video ''si1''])"
    by (simp add: demo_env_def bad_videos_def)
  have l: "fst ?l = Inr [\<lparr> r_video_id = ''ok1'', r_title = ''title of ok1'',
               r_published = ''2026-01-01T00:00:00Z'', r_source = ''YouTube'',
               r_url = ''https://www.youtube.com/watch?v=ok1'',
               r_content_en = ''parliament convenes today'' \<rparr>]"
    by (simp add: stage_defs path_defs demo_defs)
  then have before: "?l = (Inr [\<lparr> r_video_id = ''ok1'', r_title = ''title of ok1'',
               r_published = ''2026-01-01T00:00:00Z'', r_source = ''YouTube'',
               r_url = ''https://www.youtube.com/watch?v=ok1'',
               r_content_en = ''parliament convenes today'' \<rparr>], snd ?l)"
    by (simp add: prod_eq_iff)
  have g: "fst ?g = Inr None"
    by (simp add: stage_defs path_defs demo_defs)
  then have absent: "?g = (Inr None, snd ?g)"
    by (simp add: prod_eq_iff)
  have vid: "url_video_id (video_url_of (videoId (demo_video ''bad1''))) = Inr ''bad1''"
    by (simp add: path_defs bind_def demo_video_def)
  have download: "ydl_download ?E (outtmpl_of (audio_path_of ''bad1''))
        (video_url_of (videoId (demo_video ''bad1''))) (files (snd ?g)) = (Inr (), files (snd ?g))"
    by (simp add: demo_env_def demo_download_def demo_video_def)
  have fs: "files (snd ?g) = {''audio/ok1.wav''}"
    by (simp add: stage_defs path_defs demo_defs)
  have p: "audio_path_of ''bad1'' = ''audio/bad1.wav''"
    by (simp add: path_defs)
  have missing: "audio_path_of ''bad1'' \<notin> files (snd ?g)"
    unfolding fs p by simp
  have tr: "trace (snd ?g) =
      [Called_get_captions ''ok1'', Stdout ''No captions found'',
       Called_transcribe_audio ''https://www.youtube.com/watch?v=ok1'',
       Stdout (no_captions_message ''https://www.youtube.com/watch?v=ok1''),
       Called_normalize_text ''parliament convenes today'',
       Called_get_captions ''bad1'', Stdout ''No captions found'']"
    by (simp add: stage_defs path_defs demo_defs)
  note th = missing_audio_aborts_batch [OF search before absent vid download missing]
  note run = th [THEN conjunct2, THEN conjunct1]
  note run_trace = th [THEN conjunct2, THEN conjunct2, THEN conjunct1]
  have r: "fst (run_pipeline ?E w0)
      = Inl (Exn RuntimeError ''Audio file not created: audio/bad1.wav'')"
    unfolding run p by simp
  have t: "trace (snd (run_pipeline ?E w0)) =
      [Called_get_captions ''ok1'', Stdout ''No captions found'',
       Called_transcribe_audio ''https://www.youtube.com/watch?v=ok1'',
       Stdout (no_captions_message ''https://www.youtube.com/watch?v=ok1''),
       Called_normalize_text ''parliament convenes today'',
       Called_get_captions ''bad1'', Stdout ''No captions found'',
       Called_transcribe_audio ''https://www.youtube.com/watch?v=bad1'']"
    unfolding run_trace tr by (simp add: demo_video_def video_url_of_def)
  have c2: "map r_video_id (case fst ?l of Inr rs \<Rightarrow> rs | Inl e \<Rightarrow> []) = [''ok1'']"
    unfolding l by simp
  have c6: "transcribe_calls (trace (snd (run_pipeline ?E w0)))
      = [''https://www.youtube.com/watch?v=ok1'', ''https://www.youtube.com/watch?v=bad1'']"
    unfolding t by simp
  have c7: "Called_get_captions ''si1'' \<notin> set (trace (snd (run_pipeline ?E w0)))"
    unfolding t by simp
  have c8: "dumps (trace (snd (run_pipeline ?E w0))) = []"
    unfolding t by simp
  show ?thesis
    by (intro conjI search c2 g p r c6 c7 c8)
qed

section \<open>Facts about a failing candidate\<close>








end
